theory Spec2Isabelle
  imports Main
begin

section \<open>Values exchanged with the transport library\<close>

text \<open>
  A thrown JavaScript \<open>Error\<close> is represented by its message. Connection and channel
  objects of the transport library are represented by their identity (a number).
\<close>

datatype err = Error string

type_synonym conn = nat
type_synonym chan = nat

text \<open>Header values; \<open>HUndefined\<close> is a key that is present with the value \<open>undefined\<close>.\<close>

datatype hval = HUndefined | HNum int | HStr string | HBool bool

type_synonym header_obj = "string \<rightharpoonup> hval"

datatype exchange_type = Direct | Fanout | Topic

text \<open>
  An optional property of an object literal: the key is absent, or it is present and holds
  a value or \<open>undefined\<close> (\<open>Present None\<close>). Reading a property (\<open>rd\<close>) gives
  \<open>undefined\<close> (\<open>None\<close>) for an absent key.
\<close>

datatype 'a property = Absent | Present "'a option"

definition rd :: "'a property \<Rightarrow> 'a option" where
  "rd p = (case p of Absent \<Rightarrow> None | Present v \<Rightarrow> v)"

definition hasOwnProperty :: "'a property \<Rightarrow> bool" where
  "hasOwnProperty p = (case p of Absent \<Rightarrow> False | Present v \<Rightarrow> True)"

text \<open>The declared type \<open>Options\<close>; delays are whole numbers of milliseconds.\<close>

record options =
  exchange :: "string property"
  routingKey :: "string property"
  persistent :: "bool property"
  delay :: "int property"
  exchangeType :: "exchange_type property"
  headers :: "header_obj property"

text \<open>A delivery handed to a consumer callback: a tag, the payload, and the headers.\<close>

record delivery =
  deliveryTag :: nat
  content :: string
  properties_headers :: "header_obj option"

text \<open>
  The calls made on the transport library. \<open>AssertExchange ch name type durable xdt\<close>
  carries the argument \<open>x-delayed-type\<close>; \<open>Publish ch exchange routingKey content headers\<close>
  carries the headers of the message properties; \<open>SendToQueue ch queue content opts\<close>
  carries the options object it is given.
\<close>

datatype call =
    AmqpConnect string
  | CreateChannel conn
  | AssertExchange chan string string bool "exchange_type option"
  | AssertQueue chan string bool
  | BindQueue chan string string "string option"
  | Publish chan string "string option" string header_obj
  | SendToQueue chan string string options
  | Consume chan string bool
  | Ack chan delivery
  | Nack chan delivery
  | ChannelClose chan
  | ConnectionClose conn

text \<open>
  The transport library and the broker behind it are the environment: given the calls made
  so far and the next call, it either accepts the call (\<open>None\<close>) or throws.
\<close>

type_synonym broker = "call list \<Rightarrow> call \<Rightarrow> err option"

section \<open>Sequencing of fallible, stateful steps\<close>

type_synonym ('s, 'a) act = "'s \<Rightarrow> (err + 'a) \<times> 's"

definition return :: "'a \<Rightarrow> ('s, 'a) act" where
  "return a = (\<lambda>s. (Inr a, s))"

definition throw :: "err \<Rightarrow> ('s, 'a) act" where
  "throw e = (\<lambda>s. (Inl e, s))"

definition seq :: "('s, 'a) act \<Rightarrow> ('a \<Rightarrow> ('s, 'b) act) \<Rightarrow> ('s, 'b) act" where
  "seq m f = (\<lambda>s. case m s of (Inl e, s') \<Rightarrow> (Inl e, s') | (Inr a, s') \<Rightarrow> f a s')"

definition try_catch :: "('s, 'a) act \<Rightarrow> (err \<Rightarrow> ('s, 'a) act) \<Rightarrow> ('s, 'a) act" where
  "try_catch m h = (\<lambda>s. case m s of (Inl e, s') \<Rightarrow> h e s' | (Inr a, s') \<Rightarrow> (Inr a, s'))"

definition modify :: "('s \<Rightarrow> 's) \<Rightarrow> ('s, unit) act" where
  "modify f = (\<lambda>s. (Inr (), f s))"

section \<open>RabbitMQClient\<close>

datatype callback = HandleConnectionLost | UserCallback nat

record client =
  url :: string
  channel :: "chan option"
  isConnected :: bool
  connectionLostCallback :: "callback option"

text \<open>
  The class-level state of \<open>RabbitMQClient\<close> (the static \<open>connection\<close>) together with
  the log of calls made on the transport library.
\<close>

record shared =
  connection :: "conn option"
  trace :: "call list"

type_synonym cstate = "client \<times> shared"

definition new_RabbitMQClient :: "string \<Rightarrow> client" where
  "new_RabbitMQClient u =
     \<lparr>url = u, channel = None, isConnected = False, connectionLostCallback = None\<rparr>"

text \<open>One call on the transport library: it is logged, and it returns or throws.\<close>

definition invoke :: "broker \<Rightarrow> call \<Rightarrow> (cstate, unit) act" where
  "invoke b c = (\<lambda>(this, s).
     let s' = s\<lparr>trace := trace s @ [c]\<rparr> in
     case b (trace s) c of
       None \<Rightarrow> (Inr (), (this, s'))
     | Some e \<Rightarrow> (Inl e, (this, s')))"

definition getChannel :: "(cstate, chan) act" where
  "getChannel = (\<lambda>(this, s).
     case channel this of
       None \<Rightarrow> (Inl (Error ''Channel not initialized. Connection may have failed.''), (this, s))
     | Some ch \<Rightarrow> (Inr ch, (this, s)))"

definition onConnectionLost :: "callback \<Rightarrow> (cstate, unit) act" where
  "onConnectionLost cb = modify (\<lambda>(this, s). (this\<lparr>connectionLostCallback := Some cb\<rparr>, s))"

definition getConnectionStatus :: "client \<Rightarrow> bool" where
  "getConnectionStatus this = (isConnected this \<and> channel this \<noteq> None)"

text \<open>
  \<open>connect\<close>: the shared connection is opened only when the class holds none; a fresh
  channel is always created. A new connection or channel is identified by the position of
  the call that created it.
\<close>

definition RabbitMQClient_connect :: "broker \<Rightarrow> (cstate, unit) act" where
  "RabbitMQClient_connect b =
     seq (\<lambda>(this, s).
            case connection s of
              None \<Rightarrow>
                seq (invoke b (AmqpConnect (url this)))
                    (\<lambda>_. \<lambda>(this', s'). (Inr (length (trace s)),
                                        (this', s'\<lparr>connection := Some (length (trace s))\<rparr>)))
                    (this, s)
            | Some k \<Rightarrow> (Inr k, (this, s)))
      (\<lambda>k. seq (\<lambda>(this, s).
                   seq (invoke b (CreateChannel k))
                       (\<lambda>_. modify (\<lambda>(this', s'). (this'\<lparr>channel := Some (length (trace s))\<rparr>, s')))
                       (this, s))
       (\<lambda>_. modify (\<lambda>(this, s). (this\<lparr>isConnected := True\<rparr>, s))))"

text \<open>The handlers that \<open>connect\<close> registers on the connection and on the channel.\<close>

definition on_connection_close :: "cstate \<Rightarrow> callback option \<times> cstate" where
  "on_connection_close = (\<lambda>(this, s).
     (connectionLostCallback this,
      (this\<lparr>isConnected := False, channel := None\<rparr>, s\<lparr>connection := None\<rparr>)))"

definition on_connection_error :: "cstate \<Rightarrow> cstate" where
  "on_connection_error = (\<lambda>(this, s). (this\<lparr>isConnected := False, channel := None\<rparr>, s))"

definition on_channel_close :: "cstate \<Rightarrow> cstate" where
  "on_channel_close = (\<lambda>(this, s). (this\<lparr>channel := None\<rparr>, s))"

subsection \<open>Option merging and string helpers\<close>

definition defaultOptions :: "string \<Rightarrow> options" where
  "defaultOptions queue =
     \<lparr>exchange = Present (Some (''Exchange_'' @ queue)),
      routingKey = Present (Some queue),
      persistent = Absent,
      delay = Present (Some 0),
      exchangeType = Present (Some Direct),
      headers = Present (Some Map.empty)\<rparr>"

text \<open>Object spread \<open>{...a, ...b}\<close>: every key that \<open>b\<close> owns replaces the one of \<open>a\<close>.\<close>

definition spread_prop :: "'a property \<Rightarrow> 'a property \<Rightarrow> 'a property" where
  "spread_prop a b = (case b of Absent \<Rightarrow> a | Present v \<Rightarrow> Present v)"

definition spread_options :: "options \<Rightarrow> options \<Rightarrow> options" where
  "spread_options a b =
     \<lparr>exchange = spread_prop (exchange a) (exchange b),
      routingKey = spread_prop (routingKey a) (routingKey b),
      persistent = spread_prop (persistent a) (persistent b),
      delay = spread_prop (delay a) (delay b),
      exchangeType = spread_prop (exchangeType a) (exchangeType b),
      headers = spread_prop (headers a) (headers b)\<rparr>"

text \<open>Spreading a header object that may be \<open>undefined\<close> contributes no key then.\<close>

definition spread_headers :: "header_obj option \<Rightarrow> header_obj" where
  "spread_headers h = (case h of None \<Rightarrow> Map.empty | Some m \<Rightarrow> m)"

text \<open>A template literal prints \<open>undefined\<close> for an undefined value.\<close>

definition template :: "string option \<Rightarrow> string" where
  "template v = (case v of None \<Rightarrow> ''undefined'' | Some s \<Rightarrow> s)"

definition delayed_name :: "options \<Rightarrow> string" where
  "delayed_name mergedOptions = template (rd (exchange mergedOptions)) @ ''-delayed''"

definition num_hval :: "int option \<Rightarrow> hval" where
  "num_hval v = (case v of None \<Rightarrow> HUndefined | Some d \<Rightarrow> HNum d)"

fun str_includes :: "string \<Rightarrow> string \<Rightarrow> bool" where
  "str_includes [] t = (t = [])"
| "str_includes (x # xs) t = (take (length t) (x # xs) = t \<or> str_includes xs t)"

text \<open>The \<open>catch\<close> block shared by \<open>publish\<close> and \<open>sendToQueue\<close>.\<close>

definition catch_closed :: "err \<Rightarrow> (cstate, 'a) act" where
  "catch_closed e = (case e of Error msg \<Rightarrow>
     seq (if str_includes msg ''Channel closed'' \<or> str_includes msg ''Connection closed''
          then modify (\<lambda>(this, s). (this\<lparr>isConnected := False, channel := None\<rparr>, s))
          else return ())
         (\<lambda>_. throw e))"

text \<open>
  \<open>Buffer.from(JSON.stringify(message))\<close>: the encoder is a parameter; it may throw.
\<close>

definition encode :: "('m \<Rightarrow> err + string) \<Rightarrow> 'm \<Rightarrow> (cstate, string) act" where
  "encode stringify message = (\<lambda>st. (stringify message, st))"

subsection \<open>publish and sendToQueue\<close>

definition RabbitMQClient_publish ::
  "broker \<Rightarrow> ('m \<Rightarrow> err + string) \<Rightarrow> string \<Rightarrow> 'm \<Rightarrow> options \<Rightarrow> (cstate, unit) act" where
  "RabbitMQClient_publish b stringify queue message opts = (\<lambda>(this, s).
     case channel this of
       None \<Rightarrow> (Inl (Error ''Cannot publish: RabbitMQ channel not initialized''), (this, s))
     | Some ch \<Rightarrow>
         try_catch
           (let mergedOptions = spread_options (defaultOptions queue) opts in
            seq (invoke b (AssertExchange ch (delayed_name mergedOptions) ''x-delayed-message''
                             True (rd (exchangeType mergedOptions))))
            (\<lambda>_. seq (invoke b (AssertQueue ch queue True))
            (\<lambda>_. seq (invoke b (BindQueue ch queue (delayed_name mergedOptions)
                                   (rd (routingKey mergedOptions))))
            (\<lambda>_. seq (encode stringify message)
            (\<lambda>payload. invoke b (Publish ch (delayed_name mergedOptions)
                                   (rd (routingKey mergedOptions)) payload
                                   ((spread_headers (rd (headers mergedOptions)))
                                      (''x-delay'' \<mapsto> num_hval (rd (delay mergedOptions))))))))))
           catch_closed (this, s))"

definition RabbitMQClient_sendToQueue ::
  "broker \<Rightarrow> ('m \<Rightarrow> err + string) \<Rightarrow> string \<Rightarrow> 'm \<Rightarrow> options \<Rightarrow> (cstate, unit) act" where
  "RabbitMQClient_sendToQueue b stringify queue message opts = (\<lambda>(this, s).
     case channel this of
       None \<Rightarrow> (Inl (Error ''Cannot send to queue: RabbitMQ channel not initialized''), (this, s))
     | Some ch \<Rightarrow>
         try_catch
           (seq (invoke b (AssertQueue ch queue True))
            (\<lambda>_. let mergedOptions = spread_options (defaultOptions queue) opts in
              if (case rd (delay mergedOptions) of None \<Rightarrow> False | Some d \<Rightarrow> d \<noteq> 0 \<and> d > 0)
              then
                seq (invoke b (AssertExchange ch (delayed_name mergedOptions) ''x-delayed-message''
                                 True (rd (exchangeType mergedOptions))))
                (\<lambda>_. seq (invoke b (BindQueue ch queue (delayed_name mergedOptions)
                                       (rd (routingKey mergedOptions))))
                (\<lambda>_. let hdrs = Map.empty(''x-delay'' \<mapsto> num_hval (rd (delay mergedOptions)));
                          mergedHeader =
                            (if hasOwnProperty (headers opts)
                             then (spread_headers (rd (headers opts))) ++ hdrs
                             else hdrs)
                      in seq (encode stringify message)
                         (\<lambda>payload. invoke b (Publish ch (delayed_name mergedOptions)
                                                (rd (routingKey mergedOptions)) payload
                                                mergedHeader))))
              else
                seq (encode stringify message)
                    (\<lambda>payload. invoke b (SendToQueue ch queue payload opts))))
           catch_closed (this, s))"

subsection \<open>consume, ack, nack, close\<close>

definition RabbitMQClient_consume :: "broker \<Rightarrow> string \<Rightarrow> (cstate, unit) act" where
  "RabbitMQClient_consume b queue = (\<lambda>(this, s).
     case channel this of
       None \<Rightarrow> (Inl (Error ''Cannot consume: RabbitMQ channel not initialized''), (this, s))
     | Some ch \<Rightarrow>
         seq (invoke b (AssertQueue ch queue True))
             (\<lambda>_. invoke b (Consume ch queue False)) (this, s))"

definition RabbitMQClient_ack :: "broker \<Rightarrow> delivery option \<Rightarrow> (cstate, unit) act" where
  "RabbitMQClient_ack b message = (\<lambda>(this, s).
     case (message, channel this) of
       (Some m, Some ch) \<Rightarrow> invoke b (Ack ch m) (this, s)
     | _ \<Rightarrow> (Inr (), (this, s)))"

definition RabbitMQClient_nack :: "broker \<Rightarrow> delivery option \<Rightarrow> (cstate, unit) act" where
  "RabbitMQClient_nack b message = (\<lambda>(this, s).
     case (message, channel this) of
       (Some m, Some ch) \<Rightarrow> invoke b (Nack ch m) (this, s)
     | _ \<Rightarrow> (Inr (), (this, s)))"

definition RabbitMQClient_close :: "broker \<Rightarrow> (cstate, unit) act" where
  "RabbitMQClient_close b =
     seq (\<lambda>(this, s).
            case channel this of
              Some ch \<Rightarrow>
                seq (invoke b (ChannelClose ch))
                    (\<lambda>_. modify (\<lambda>(this', s'). (this'\<lparr>channel := None\<rparr>, s'))) (this, s)
            | None \<Rightarrow> (Inr (), (this, s)))
     (\<lambda>_. seq (\<lambda>(this, s).
                  case connection s of
                    Some k \<Rightarrow>
                      seq (invoke b (ConnectionClose k))
                          (\<lambda>_. modify (\<lambda>(this', s'). (this', s'\<lparr>connection := None\<rparr>))) (this, s)
                  | None \<Rightarrow> (Inr (), (this, s)))
     (\<lambda>_. modify (\<lambda>(this, s). (this\<lparr>isConnected := False\<rparr>, s))))"

section \<open>RabbitMQConnection\<close>

text \<open>
  The process-wide state: the class-level state of \<open>RabbitMQClient\<close>, the
  \<open>RabbitMQClient\<close> objects by address (\<open>next_ref\<close> is the next free address),
  the static fields of \<open>RabbitMQConnection\<close>, and the log of the \<open>consume()\<close>
  calls made on registered consumers.
\<close>

record 'c world =
  rmq :: shared
  heap :: "nat \<Rightarrow> client"
  next_ref :: nat
  rabbitMQClient :: "nat option"
  connectionUrl :: string
  consumers :: "'c list"
  isConnecting :: bool
  isReconnecting :: bool
  consume_calls :: "'c list"

text \<open>A method of the client object at address \<open>r\<close>, run in the process-wide state.\<close>

definition on_client :: "nat \<Rightarrow> (cstate, 'a) act \<Rightarrow> ('c world, 'a) act" where
  "on_client r m = (\<lambda>w.
     case m (heap w r, rmq w) of
       (res, (c', s')) \<Rightarrow> (res, w\<lparr>heap := (heap w)(r := c'), rmq := s'\<rparr>))"

definition getClient :: "'c world \<Rightarrow> err + nat" where
  "getClient w =
     (case rabbitMQClient w of
        None \<Rightarrow> Inl (Error
          ''RabbitMQ client not initialized. Call connect before accessing the client.'')
      | Some r \<Rightarrow> Inr r)"

definition registerConsumers :: "'c list \<Rightarrow> 'c world \<Rightarrow> 'c world" where
  "registerConsumers cs w = w\<lparr>consumers := cs\<rparr>"

text \<open>
  \<open>consumer.consume()\<close> is the entry point of a registered consumer; it is a parameter
  here. A call is logged and then made: the entry point runs in the state that holds the
  log entry, and what it does to the state, whether it returns or throws, is kept.
\<close>

definition call_consume :: "('c \<Rightarrow> ('c world, unit) act) \<Rightarrow> 'c \<Rightarrow> ('c world, unit) act" where
  "call_consume consume c = (\<lambda>w. consume c (w\<lparr>consume_calls := consume_calls w @ [c]\<rparr>))"

fun start_each :: "('c \<Rightarrow> ('c world, unit) act) \<Rightarrow> 'c list \<Rightarrow> 'c world \<Rightarrow> 'c world" where
  "start_each consume [] w = w"
| "start_each consume (c # cs) w =
     start_each consume cs (snd (try_catch (call_consume consume c) (\<lambda>e. return ()) w))"

definition RabbitMQConnection_startConsumers ::
  "('c \<Rightarrow> ('c world, unit) act) \<Rightarrow> ('c world, unit) act" where
  "RabbitMQConnection_startConsumers consume = (\<lambda>w.
     (Inr (), start_each consume (consumers w) w))"

text \<open>The \<open>try\<close> block of the connect loop: a new client is constructed and connected.\<close>

definition attempt :: "broker \<Rightarrow> string \<Rightarrow> ('c world, unit) act" where
  "attempt b rabbitMQUrl = (\<lambda>w.
     let r = next_ref w;
         w1 = w\<lparr>heap := (heap w)(r := new_RabbitMQClient rabbitMQUrl),
                next_ref := Suc r,
                rabbitMQClient := Some r\<rparr>
     in seq (on_client r (RabbitMQClient_connect b))
            (\<lambda>_. on_client r (onConnectionLost HandleConnectionLost)) w1)"

text \<open>
  The loop \<open>while (!connected)\<close>. It retries for ever when \<open>retryOnFail\<close> holds and
  every attempt fails, so it takes fuel: one unit per attempt, \<open>None\<close> when it runs out.
\<close>

fun connect_loop ::
  "nat \<Rightarrow> broker \<Rightarrow> string \<Rightarrow> bool \<Rightarrow> 'c world \<Rightarrow> ((err + unit) \<times> 'c world) option" where
  "connect_loop 0 b rabbitMQUrl retryOnFail w = None"
| "connect_loop (Suc n) b rabbitMQUrl retryOnFail w =
     (case attempt b rabbitMQUrl w of
        (Inr u, w') \<Rightarrow> Some (Inr (), w')
      | (Inl e, w') \<Rightarrow>
          (let w'' = w'\<lparr>rabbitMQClient := None\<rparr> in
           if \<not> retryOnFail then Some (Inl e, w''\<lparr>isConnecting := False\<rparr>)
           else connect_loop n b rabbitMQUrl retryOnFail w''))"

text \<open>
  The wait \<open>while (this.isConnecting)\<close> of a caller that finds a connect in flight. No
  other task runs in this sequential model, so nothing clears the flag during the wait.
\<close>

fun poll :: "nat \<Rightarrow> 'c world \<Rightarrow> 'c world option" where
  "poll 0 w = None"
| "poll (Suc n) w = (if isConnecting w then poll n w else Some w)"

definition RabbitMQConnection_connect ::
  "nat \<Rightarrow> broker \<Rightarrow> ('c \<Rightarrow> ('c world, unit) act) \<Rightarrow> string \<Rightarrow> bool \<Rightarrow> 'c world
     \<Rightarrow> ((err + unit) \<times> 'c world) option" where
  "RabbitMQConnection_connect fuel b consume rabbitMQUrl retryOnFail w =
     (if isConnecting w then
        (case poll fuel w of None \<Rightarrow> None | Some w' \<Rightarrow> Some (Inr (), w'))
      else
        let w1 = w\<lparr>connectionUrl := rabbitMQUrl\<rparr> in
        if (case rabbitMQClient w1 of
              None \<Rightarrow> False
            | Some r \<Rightarrow> getConnectionStatus (heap w1 r))
        then Some (Inr (), w1)
        else
          (case connect_loop fuel b rabbitMQUrl retryOnFail (w1\<lparr>isConnecting := True\<rparr>) of
             None \<Rightarrow> None
           | Some (Inl e, w2) \<Rightarrow> Some (Inl e, w2)
           | Some (Inr u, w2) \<Rightarrow>
               (let w3 = w2\<lparr>isConnecting := False\<rparr> in
                if length (consumers w3) > 0
                then Some (RabbitMQConnection_startConsumers consume w3)
                else Some (Inr (), w3))))"

definition handleConnectionLost ::
  "nat \<Rightarrow> broker \<Rightarrow> ('c \<Rightarrow> ('c world, unit) act) \<Rightarrow> 'c world \<Rightarrow> 'c world option" where
  "handleConnectionLost fuel b consume w =
     (if isReconnecting w then Some w
      else
        let w1 = w\<lparr>isReconnecting := True, rabbitMQClient := None\<rparr> in
        case RabbitMQConnection_connect fuel b consume (connectionUrl w1) True w1 of
          None \<Rightarrow> None
        | Some (r, w2) \<Rightarrow> Some (w2\<lparr>isReconnecting := False\<rparr>))"

text \<open>
  The connection closes under the client at address \<open>r\<close>: the \<open>close\<close> handler of that
  client runs, and then the callback it holds, which is \<open>handleConnectionLost\<close> when the
  client was set up by \<open>connect\<close>.
\<close>

definition connection_lost ::
  "nat \<Rightarrow> broker \<Rightarrow> ('c \<Rightarrow> ('c world, unit) act) \<Rightarrow> nat \<Rightarrow> 'c world \<Rightarrow> 'c world option" where
  "connection_lost fuel b consume r w =
     (case on_connection_close (heap w r, rmq w) of
        (cb, (c', s')) \<Rightarrow>
          (let w' = w\<lparr>heap := (heap w)(r := c'), rmq := s'\<rparr> in
           case cb of
             Some HandleConnectionLost \<Rightarrow> handleConnectionLost fuel b consume w'
           | _ \<Rightarrow> Some w'))"

definition RabbitMQConnection_close :: "broker \<Rightarrow> ('c world, unit) act" where
  "RabbitMQConnection_close b = (\<lambda>w.
     case rabbitMQClient w of
       None \<Rightarrow> (Inl (Error
         ''RabbitMQ client not initialized. Call connect before accessing the client.''), w)
     | Some r \<Rightarrow>
         seq (on_client r (RabbitMQClient_close b))
             (\<lambda>_. modify (\<lambda>w'. w'\<lparr>rabbitMQClient := None\<rparr>)) w)"

definition RabbitMQConnection_isConnected :: "'c world \<Rightarrow> bool" where
  "RabbitMQConnection_isConnected w =
     (case rabbitMQClient w of None \<Rightarrow> False | Some r \<Rightarrow> getConnectionStatus (heap w r))"

definition reset :: "'c world \<Rightarrow> 'c world" where
  "reset w = w\<lparr>rabbitMQClient := None, isConnecting := False\<rparr>"

section \<open>Publisher\<close>

text \<open>
  The fields of the abstract class \<open>Publisher\<close>; \<open>pub_rabbitMQClient\<close> is the private
  field \<open>_rabbitMQClient\<close>, the address of the cached client or \<open>null\<close>.
\<close>

record publisher =
  pub_queueName :: string
  pub_options :: options
  pub_rabbitMQClient :: "nat option"

definition new_Publisher :: "string \<Rightarrow> options \<Rightarrow> publisher" where
  "new_Publisher q opts =
     \<lparr>pub_queueName = q, pub_options = opts, pub_rabbitMQClient = None\<rparr>"

text \<open>The getter \<open>rabbitMQClient\<close>: it returns a client address or throws, and may cache.\<close>

definition Publisher_rabbitMQClient :: "publisher \<Rightarrow> 'c world \<Rightarrow> (err + nat) \<times> publisher" where
  "Publisher_rabbitMQClient this w =
     (case pub_rabbitMQClient this of
        None \<Rightarrow>
          (case getClient w of
             Inl e \<Rightarrow> (Inl e, this)
           | Inr r \<Rightarrow> (Inr r, this\<lparr>pub_rabbitMQClient := Some r\<rparr>))
      | Some r \<Rightarrow> (Inr r, this))"

section \<open>Consumer\<close>

text \<open>
  Modelled from the spec: the abstract class \<open>Consumer\<close> is not among the source files.
  A consumer is bound to a queue name and a retry policy.
\<close>

record consumer =
  queueName :: string
  retry :: bool
  retry_count :: int
  retry_delay :: int

text \<open>
  Modelled from the spec: the constructor of \<open>Consumer\<close>, with the defaults of the
  retry policy (retry enabled, three attempts, no delay).
\<close>

definition new_Consumer :: "string \<Rightarrow> consumer" where
  "new_Consumer q = \<lparr>queueName = q, retry = True, retry_count = 3, retry_delay = 0\<rparr>"

text \<open>
  Modelled from the spec: what the delivery handler of \<open>Consumer\<close> asks of the shared
  client: to publish a payload with headers to a queue (with a delay, when one is
  configured), to acknowledge a delivery, or to reject it.
\<close>

datatype consumer_call =
    ClientPublish string string header_obj "int option"
  | ClientAck delivery
  | ClientNack delivery

text \<open>
  Modelled from the spec: the retry-attempt counter of a delivery, read from the header
  \<open>ck\<close> and 0 when the delivery has no such number. The spec does not name the header,
  so its key is a parameter.
\<close>

definition attempt_counter :: "string \<Rightarrow> delivery \<Rightarrow> int" where
  "attempt_counter ck d =
     (case properties_headers d of
        None \<Rightarrow> 0
      | Some h \<Rightarrow> (case h ck of Some (HNum n) \<Rightarrow> n | _ \<Rightarrow> 0))"

text \<open>
  Modelled from the spec: the handling of one delivery by \<open>Consumer.consume\<close>. The
  payload is parsed (\<open>parse\<close>) and handed to \<open>execute\<close>, which returns or throws. On
  success the delivery is acknowledged. On failure the message goes to the queue
  \<open>queueName_error\<close> when retry is disabled or the counter has reached \<open>retry_count\<close>,
  and otherwise back to the same queue with the counter incremented (header \<open>ck\<close>), the
  error description recorded (header \<open>ek\<close>) and the configured delay; the original
  delivery is acknowledged in both cases. The spec says nothing of a payload that does not
  parse: the result is \<open>None\<close> there.
\<close>

definition on_delivery ::
  "string \<Rightarrow> string \<Rightarrow> (string \<Rightarrow> err + 'm) \<Rightarrow> ('m \<Rightarrow> err option) \<Rightarrow> consumer \<Rightarrow> delivery
     \<Rightarrow> consumer_call list option" where
  "on_delivery ck ek parse execute this d =
     (case parse (content d) of
        Inl e \<Rightarrow> None
      | Inr m \<Rightarrow>
          Some (case execute m of
                  None \<Rightarrow> [ClientAck d]
                | Some (Error msg) \<Rightarrow>
                    (let n = attempt_counter ck d in
                     if \<not> retry this \<or> n \<ge> retry_count this
                     then [ClientPublish (queueName this @ ''_error'') (content d)
                             (spread_headers (properties_headers d)) None,
                           ClientAck d]
                     else [ClientPublish (queueName this) (content d)
                             ((spread_headers (properties_headers d))
                                (ck \<mapsto> HNum (n + 1), ek \<mapsto> HStr msg))
                             (Some (retry_delay this)),
                           ClientAck d])))"

text \<open>
  Modelled from the spec: the entry point \<open>consume()\<close> of \<open>Consumer\<close> subscribes to
  the queue through the shared client.
\<close>

definition Consumer_consume :: "broker \<Rightarrow> consumer \<Rightarrow> (consumer world, unit) act" where
  "Consumer_consume b this = (\<lambda>w.
     case getClient w of
       Inl e \<Rightarrow> (Inl e, w)
     | Inr r \<Rightarrow> on_client r (RabbitMQClient_consume b (queueName this)) w)"

text \<open>Which requests of a delivery handler are publishes, acknowledgements, rejections.\<close>

fun is_publish :: "consumer_call \<Rightarrow> bool" where
  "is_publish (ClientPublish q p h dl) = True"
| "is_publish c = False"

fun is_ack :: "consumer_call \<Rightarrow> bool" where
  "is_ack (ClientAck d) = True"
| "is_ack c = False"

fun is_nack :: "consumer_call \<Rightarrow> bool" where
  "is_nack (ClientNack d) = True"
| "is_nack c = False"

section \<open>Example environments\<close>

text \<open>A transport that accepts every call, and the state of a process before any connect.\<close>

definition accepting :: broker where
  "accepting t c = None"

definition no_options :: options where
  "no_options = \<lparr>exchange = Absent, routingKey = Absent, persistent = Absent,
                  delay = Absent, exchangeType = Absent, headers = Absent\<rparr>"

definition fresh_shared :: shared where
  "fresh_shared = \<lparr>connection = None, trace = []\<rparr>"

definition open_client :: client where
  "open_client = \<lparr>url = ''amqp://localhost'', channel = Some 1, isConnected = True,
                   connectionLostCallback = Some HandleConnectionLost\<rparr>"

definition open_shared :: shared where
  "open_shared = \<lparr>connection = Some 0, trace = [AmqpConnect ''amqp://localhost'', CreateChannel 0]\<rparr>"

text \<open>A transport that refuses every call.\<close>

definition refusing :: broker where
  "refusing t c = Some (Error ''ECONNREFUSED'')"

text \<open>A transport that refuses to assert the queue \<open>orders\<close> and accepts every other call.\<close>

fun refusing_orders :: broker where
  "refusing_orders t (AssertQueue ch q d) =
     (if q = ''orders'' then Some (Error ''ECONNREFUSED'') else None)"
| "refusing_orders t c = None"

text \<open>
  The process before any connect, and a process whose client at address 0 is connected.
\<close>

definition fresh_world :: "consumer world" where
  "fresh_world =
     \<lparr>rmq = fresh_shared, heap = (\<lambda>r. new_RabbitMQClient []), next_ref = 0,
      rabbitMQClient = None, connectionUrl = [], consumers = [],
      isConnecting = False, isReconnecting = False, consume_calls = []\<rparr>"

definition connected_world :: "consumer world" where
  "connected_world =
     \<lparr>rmq = open_shared, heap = (\<lambda>r. new_RabbitMQClient [])(0 := open_client), next_ref = 1,
      rabbitMQClient = Some 0, connectionUrl = ''amqp://localhost'', consumers = [],
      isConnecting = False, isReconnecting = False, consume_calls = []\<rparr>"

text \<open>
  A business logic that always throws, a first delivery, and a delivery whose attempt
  counter (under the header key used in the examples) has reached 3.
\<close>

definition failing_execute :: "string \<Rightarrow> err option" where
  "failing_execute m = Some (Error ''boom'')"

definition first_delivery :: delivery where
  "first_delivery = \<lparr>deliveryTag = 1, content = ''{}'', properties_headers = None\<rparr>"

definition exhausted_delivery :: delivery where
  "exhausted_delivery =
     \<lparr>deliveryTag = 4, content = ''{}'',
      properties_headers = Some (Map.empty(''x-retry-count'' \<mapsto> HNum 3))\<rparr>"

section \<open>Properties of RabbitMQClient\<close>

lemma seq_invoke:
  "seq (invoke b c) f (this, s) =
     (case b (trace s) c of
        None \<Rightarrow> f () (this, s\<lparr>trace := trace s @ [c]\<rparr>)
      | Some e \<Rightarrow> (Inl e, (this, s\<lparr>trace := trace s @ [c]\<rparr>)))"
  by (simp add: seq_def invoke_def Let_def split: option.splits)

lemma invoke_apply:
  "invoke b c (this, s) =
     (case b (trace s) c of None \<Rightarrow> Inr () | Some e \<Rightarrow> Inl e, (this, s\<lparr>trace := trace s @ [c]\<rparr>))"
  by (simp add: invoke_def Let_def split: option.splits)

lemma seq_encode:
  "seq (encode stringify message) f st =
     (case stringify message of Inl e \<Rightarrow> (Inl e, st) | Inr p \<Rightarrow> f p st)"
  by (simp add: seq_def encode_def split: sum.splits)

lemma publish_body:
  assumes enc: "stringify message = Inr payload"
  shows "\<exists>n r. seq (invoke b c1) (\<lambda>_. seq (invoke b c2) (\<lambda>_. seq (invoke b c3)
            (\<lambda>_. seq (encode stringify message) (\<lambda>p. invoke b (c4 p))))) (this, s) =
          (r, (this, s\<lparr>trace := trace s @ take (Suc n) [c1, c2, c3, c4 payload]\<rparr>)) \<and>
          (r = Inr () \<longrightarrow> n = 3) \<and>
          ((\<forall>t c. b t c = None) \<longrightarrow> r = Inr ())"
proof (cases "b (trace s) c1")
  case (Some e)
  then show ?thesis by (intro exI[of _ 0]) (auto simp: seq_invoke)
next
  case n1: None
  show ?thesis
  proof (cases "b (trace s @ [c1]) c2")
    case (Some e)
    with n1 show ?thesis by (intro exI[of _ 1]) (auto simp: seq_invoke)
  next
    case n2: None
    show ?thesis
    proof (cases "b (trace s @ [c1, c2]) c3")
      case (Some e)
      with n1 n2 show ?thesis by (intro exI[of _ 2]) (auto simp: seq_invoke)
    next
      case n3: None
      with n1 n2 enc show ?thesis
        by (intro exI[of _ 3]) (auto simp: seq_invoke seq_encode invoke_apply split: option.splits)
    qed
  qed
qed

lemma send_body:
  assumes enc: "stringify message = Inr payload"
  shows "\<exists>n r. seq (invoke b c1) (\<lambda>_. seq (encode stringify message) (\<lambda>p. invoke b (c2 p))) (this, s) =
          (r, (this, s\<lparr>trace := trace s @ take (Suc n) [c1, c2 payload]\<rparr>)) \<and>
          (r = Inr () \<longrightarrow> n = 1) \<and>
          ((\<forall>t c. b t c = None) \<longrightarrow> r = Inr ())"
proof (cases "b (trace s) c1")
  case (Some e)
  then show ?thesis by (intro exI[of _ 0]) (auto simp: seq_invoke)
next
  case None
  with enc show ?thesis
    by (intro exI[of _ 1]) (auto simp: seq_invoke seq_encode invoke_apply split: option.splits)
qed

lemma try_catch_closed:
  assumes "m (this, s) = (r, (this, s'))"
  shows "\<exists>this'. try_catch m catch_closed (this, s) = (r, (this', s')) \<and> (r = Inr () \<longrightarrow> this' = this)"
proof (cases r)
  case (Inl e)
  with assms show ?thesis
    by (cases e) (simp add: try_catch_def catch_closed_def seq_def modify_def return_def throw_def)
next
  case (Inr a)
  with assms show ?thesis by (simp add: try_catch_def)
qed

lemma merged_headers_own:
  "hasOwnProperty (headers opts) \<Longrightarrow>
   rd (headers (spread_options (defaultOptions queue) opts)) = rd (headers opts)"
  by (cases "headers opts") (simp_all add: hasOwnProperty_def spread_options_def spread_prop_def)

lemma merged_headers_default:
  "\<not> hasOwnProperty (headers opts) \<Longrightarrow>
   spread_headers (rd (headers (spread_options (defaultOptions queue) opts))) = Map.empty"
  by (cases "headers opts")
     (simp_all add: hasOwnProperty_def spread_options_def spread_prop_def defaultOptions_def
                    spread_headers_def rd_def)

lemma delay_test:
  "(case v of None \<Rightarrow> False | Some d \<Rightarrow> d \<noteq> 0 \<and> d > 0) = (\<exists>d. v = Some d \<and> (0::int) < d)"
  by (cases v) auto

text \<open>
  C5. With an open channel, \<open>publish\<close> calls the transport in the order: assert the
  durable exchange \<open><exchange>-delayed\<close> of type \<open>x-delayed-message\<close>, assert the queue
  durable, bind the queue to that exchange, publish through it with the header
  \<open>x-delay\<close> set to the effective delay. \<open>sendToQueue\<close> asserts the queue durable first
  and then takes the same delayed route only when the effective delay is greater than 0;
  otherwise it sends the payload directly to the queue. The calls made are a non-empty
  prefix of that sequence, the whole of it on a normal return, and the operation returns
  normally when the transport accepts every call.
\<close>

theorem publish_always_delayed_sendToQueue_when_delay_positive:
  assumes ch: "channel this = Some ch"
    and enc: "stringify message = Inr payload"
  shows "let m = spread_options (defaultOptions queue) opts;
             X = template (rd (exchange m)) @ ''-delayed'';
             assertX = AssertExchange ch X ''x-delayed-message'' True (rd (exchangeType m));
             assertQ = AssertQueue ch queue True;
             bindQ = BindQueue ch queue X (rd (routingKey m));
             pub = Publish ch X (rd (routingKey m)) payload
                     ((spread_headers (rd (headers m)))(''x-delay'' \<mapsto> num_hval (rd (delay m))));
             direct = SendToQueue ch queue payload opts;
             via_publish = [assertX, assertQ, bindQ, pub];
             via_send = (if \<exists>d. rd (delay m) = Some d \<and> 0 < d
                         then [assertQ, assertX, bindQ, pub] else [assertQ, direct])
         in (\<exists>n r this'.
               RabbitMQClient_publish b stringify queue message opts (this, s) =
                 (r, (this', s\<lparr>trace := trace s @ take (Suc n) via_publish\<rparr>)) \<and>
               (r = Inr () \<longrightarrow> Suc n = length via_publish \<and> this' = this) \<and>
               ((\<forall>t c. b t c = None) \<longrightarrow> r = Inr ())) \<and>
            (\<exists>n r this'.
               RabbitMQClient_sendToQueue b stringify queue message opts (this, s) =
                 (r, (this', s\<lparr>trace := trace s @ take (Suc n) via_send\<rparr>)) \<and>
               (r = Inr () \<longrightarrow> Suc n = length via_send \<and> this' = this) \<and>
               ((\<forall>t c. b t c = None) \<longrightarrow> r = Inr ()))"
proof -
  define m where "m = spread_options (defaultOptions queue) opts"
  define X where "X = template (rd (exchange m)) @ ''-delayed''"
  define assertX where "assertX = AssertExchange ch X ''x-delayed-message'' True (rd (exchangeType m))"
  define assertQ where "assertQ = AssertQueue ch queue True"
  define bindQ where "bindQ = BindQueue ch queue X (rd (routingKey m))"
  define pub where "pub = (\<lambda>p. Publish ch X (rd (routingKey m)) p
                     ((spread_headers (rd (headers m)))(''x-delay'' \<mapsto> num_hval (rd (delay m)))))"
  define direct where "direct = (\<lambda>p. SendToQueue ch queue p opts)"
  note names = m_def X_def assertX_def assertQ_def bindQ_def pub_def direct_def
  have P: "\<exists>n r this'.
      RabbitMQClient_publish b stringify queue message opts (this, s) =
        (r, (this', s\<lparr>trace := trace s @ take (Suc n) [assertX, assertQ, bindQ, pub payload]\<rparr>)) \<and>
      (r = Inr () \<longrightarrow> Suc n = length [assertX, assertQ, bindQ, pub payload] \<and> this' = this) \<and>
      ((\<forall>t c. b t c = None) \<longrightarrow> r = Inr ())"
  proof -
    define body where "body = seq (invoke b assertX) (\<lambda>_. seq (invoke b assertQ)
         (\<lambda>_. seq (invoke b bindQ)
         (\<lambda>_. seq (encode stringify message) (\<lambda>p. invoke b (pub p)))))"
    obtain n r where body:
      "body (this, s) =
       (r, (this, s\<lparr>trace := trace s @ take (Suc n) [assertX, assertQ, bindQ, pub payload]\<rparr>))"
      and n: "r = Inr () \<longrightarrow> n = 3" and ok: "(\<forall>t c. b t c = None) \<longrightarrow> r = Inr ()"
      unfolding body_def
      using publish_body [of stringify message payload b assertX assertQ bindQ pub this s] enc
      by blast
    obtain this' where
      "try_catch body catch_closed (this, s) =
       (r, (this', s\<lparr>trace := trace s @ take (Suc n) [assertX, assertQ, bindQ, pub payload]\<rparr>))"
      and "r = Inr () \<longrightarrow> this' = this"
      using try_catch_closed [of body this s r, OF body] by blast
    moreover have "RabbitMQClient_publish b stringify queue message opts (this, s) =
       try_catch body catch_closed (this, s)"
      using ch by (simp add: RabbitMQClient_publish_def names body_def delayed_name_def Let_def)
    ultimately show ?thesis using n ok by auto
  qed
  have S: "\<exists>n r this'.
      RabbitMQClient_sendToQueue b stringify queue message opts (this, s) =
        (r, (this', s\<lparr>trace := trace s @ take (Suc n)
           (if \<exists>d. rd (delay m) = Some d \<and> 0 < d
            then [assertQ, assertX, bindQ, pub payload] else [assertQ, direct payload])\<rparr>)) \<and>
      (r = Inr () \<longrightarrow> Suc n = length (if \<exists>d. rd (delay m) = Some d \<and> 0 < d
            then [assertQ, assertX, bindQ, pub payload] else [assertQ, direct payload]) \<and> this' = this) \<and>
      ((\<forall>t c. b t c = None) \<longrightarrow> r = Inr ())"
  proof (cases "\<exists>d. rd (delay m) = Some d \<and> 0 < d")
    case True
    define body where "body = seq (invoke b assertQ) (\<lambda>_. seq (invoke b assertX)
         (\<lambda>_. seq (invoke b bindQ)
         (\<lambda>_. seq (encode stringify message) (\<lambda>p. invoke b (pub p)))))"
    obtain n r where body:
      "body (this, s) =
       (r, (this, s\<lparr>trace := trace s @ take (Suc n) [assertQ, assertX, bindQ, pub payload]\<rparr>))"
      and n: "r = Inr () \<longrightarrow> n = 3" and ok: "(\<forall>t c. b t c = None) \<longrightarrow> r = Inr ()"
      unfolding body_def
      using publish_body [of stringify message payload b assertQ assertX bindQ pub this s] enc
      by blast
    obtain this' where
      "try_catch body catch_closed (this, s) =
       (r, (this', s\<lparr>trace := trace s @ take (Suc n) [assertQ, assertX, bindQ, pub payload]\<rparr>))"
      and "r = Inr () \<longrightarrow> this' = this"
      using try_catch_closed [of body this s r, OF body] by blast
    moreover have "RabbitMQClient_sendToQueue b stringify queue message opts (this, s) =
       try_catch body catch_closed (this, s)"
      using ch True
      by (cases "hasOwnProperty (headers opts)")
         (simp_all add: RabbitMQClient_sendToQueue_def names body_def delayed_name_def Let_def
                    delay_test merged_headers_own merged_headers_default)
    ultimately show ?thesis using n ok True by auto
  next
    case False
    define body where "body = seq (invoke b assertQ)
         (\<lambda>_. seq (encode stringify message) (\<lambda>p. invoke b (direct p)))"
    obtain n r where body:
      "body (this, s) =
       (r, (this, s\<lparr>trace := trace s @ take (Suc n) [assertQ, direct payload]\<rparr>))"
      and n: "r = Inr () \<longrightarrow> n = 1" and ok: "(\<forall>t c. b t c = None) \<longrightarrow> r = Inr ()"
      unfolding body_def
      using send_body [of stringify message payload b assertQ direct this s] enc
      by blast
    obtain this' where
      "try_catch body catch_closed (this, s) =
       (r, (this', s\<lparr>trace := trace s @ take (Suc n) [assertQ, direct payload]\<rparr>))"
      and "r = Inr () \<longrightarrow> this' = this"
      using try_catch_closed [of body this s r, OF body] by blast
    moreover have "RabbitMQClient_sendToQueue b stringify queue message opts (this, s) =
       try_catch body catch_closed (this, s)"
    proof -
      have nd: "(\<exists>d. rd (delay (spread_options (defaultOptions queue) opts)) = Some d \<and> 0 < d) = False"
        using False by (simp add: m_def)
      show ?thesis
        using ch by (simp add: RabbitMQClient_sendToQueue_def names body_def Let_def delay_test nd)
    qed
    ultimately show ?thesis using n ok False by auto
  qed
  show ?thesis
    using P S unfolding Let_def names by blast
qed

text \<open>
  A run of C5 on a transport that accepts every call, with no caller options.
\<close>

theorem publish_always_delayed_sendToQueue_when_delay_positive_witness:
  "channel open_client = Some 1 \<and>
   RabbitMQClient_publish accepting Inr ''orders'' ''{}'' no_options (open_client, open_shared) =
     (Inr (), (open_client, open_shared\<lparr>trace := trace open_shared @
        [AssertExchange 1 ''Exchange_orders-delayed'' ''x-delayed-message'' True (Some Direct),
         AssertQueue 1 ''orders'' True,
         BindQueue 1 ''orders'' ''Exchange_orders-delayed'' (Some ''orders''),
         Publish 1 ''Exchange_orders-delayed'' (Some ''orders'') ''{}''
           (Map.empty(''x-delay'' \<mapsto> HNum 0))]\<rparr>)) \<and>
   RabbitMQClient_sendToQueue accepting Inr ''orders'' ''{}'' no_options (open_client, open_shared) =
     (Inr (), (open_client, open_shared\<lparr>trace := trace open_shared @
        [AssertQueue 1 ''orders'' True, SendToQueue 1 ''orders'' ''{}'' no_options]\<rparr>))"
proof -
  have ch: "channel open_client = Some 1" by (simp add: open_client_def)
  have enc: "(Inr ''{}'' :: err + string) = Inr ''{}''" by simp
  have m: "spread_options (defaultOptions ''orders'') no_options = defaultOptions ''orders''"
    by (simp add: spread_options_def no_options_def spread_prop_def defaultOptions_def)
  have d: "rd (delay (defaultOptions ''orders'')) = Some 0"
    "rd (exchange (defaultOptions ''orders'')) = Some ''Exchange_orders''"
    "rd (routingKey (defaultOptions ''orders'')) = Some ''orders''"
    "rd (exchangeType (defaultOptions ''orders'')) = Some Direct"
    "rd (headers (defaultOptions ''orders'')) = Some Map.empty"
    by (simp_all add: defaultOptions_def rd_def)
  have acc: "\<forall>t c. accepting t c = None" by (simp add: accepting_def)
  from publish_always_delayed_sendToQueue_when_delay_positive
         [where this = open_client and ch = 1 and stringify = "Inr :: string \<Rightarrow> err + string"
            and message = "''{}''" and payload = "''{}''" and queue = "''orders''"
            and opts = no_options and b = accepting and s = open_shared, OF ch enc]
  show ?thesis
    using ch acc
    by (auto simp add: Let_def m d template_def spread_headers_def num_hval_def)
qed

lemma invoke_accepted:
  "\<forall>t c. b t c = None \<Longrightarrow> invoke b c (this, s) = (Inr (), (this, s\<lparr>trace := trace s @ [c]\<rparr>))"
  by (simp add: invoke_def)

lemma spread_prop_precedence:
  "spread_prop a b = (if hasOwnProperty b then b else a)"
  by (cases b) (simp_all add: spread_prop_def hasOwnProperty_def)

text \<open>
  C4, as amended. Both operations hand \<open>JSON.stringify(message)\<close> to the transport. The
  options of the caller are merged over the defaults key by key, a key owned by the
  caller taking precedence. \<open>publish\<close>, and \<open>sendToQueue\<close> on its delayed path, publish
  through the exchange, routing key, headers and delay of the merged options.
  On its direct path \<open>sendToQueue\<close> hands the options of the caller to the transport as
  they are; the merged options only decide which path is taken.
\<close>

theorem options_merged_except_on_direct_send:
  assumes ch: "channel this = Some ch"
    and enc: "stringify message = Inr payload"
    and ok: "\<forall>t c. b t c = None"
  shows "let m = spread_options (defaultOptions queue) opts;
             pub = Publish ch (template (rd (exchange m)) @ ''-delayed'') (rd (routingKey m)) payload
                     ((spread_headers (rd (headers m)))(''x-delay'' \<mapsto> num_hval (rd (delay m))))
         in exchange m = (if hasOwnProperty (exchange opts) then exchange opts
                          else Present (Some (''Exchange_'' @ queue))) \<and>
            routingKey m = (if hasOwnProperty (routingKey opts) then routingKey opts
                            else Present (Some queue)) \<and>
            delay m = (if hasOwnProperty (delay opts) then delay opts else Present (Some 0)) \<and>
            exchangeType m = (if hasOwnProperty (exchangeType opts) then exchangeType opts
                              else Present (Some Direct)) \<and>
            headers m = (if hasOwnProperty (headers opts) then headers opts
                         else Present (Some Map.empty)) \<and>
            persistent m = persistent opts \<and>
            last (trace (snd (snd (RabbitMQClient_publish b stringify queue message opts (this, s))))) = pub \<and>
            last (trace (snd (snd (RabbitMQClient_sendToQueue b stringify queue message opts (this, s))))) =
              (if \<exists>d. rd (delay m) = Some d \<and> 0 < d then pub
               else SendToQueue ch queue payload opts)"
proof -
  define m where "m = spread_options (defaultOptions queue) opts"
  have keys:
    "exchange m = (if hasOwnProperty (exchange opts) then exchange opts
                   else Present (Some (''Exchange_'' @ queue)))"
    "routingKey m = (if hasOwnProperty (routingKey opts) then routingKey opts
                     else Present (Some queue))"
    "delay m = (if hasOwnProperty (delay opts) then delay opts else Present (Some 0))"
    "exchangeType m = (if hasOwnProperty (exchangeType opts) then exchangeType opts
                       else Present (Some Direct))"
    "headers m = (if hasOwnProperty (headers opts) then headers opts
                  else Present (Some Map.empty))"
    "persistent m = persistent opts"
    by (simp_all add: m_def spread_options_def defaultOptions_def spread_prop_precedence
                      hasOwnProperty_def split: property.splits)
  have P: "last (trace (snd (snd (RabbitMQClient_publish b stringify queue message opts (this, s))))) =
        Publish ch (template (rd (exchange m)) @ ''-delayed'') (rd (routingKey m)) payload
          ((spread_headers (rd (headers m)))(''x-delay'' \<mapsto> num_hval (rd (delay m))))"
    using ch enc
    by (simp add: RabbitMQClient_publish_def try_catch_def seq_def encode_def Let_def
                  invoke_accepted [OF ok] delayed_name_def m_def)
  have S: "last (trace (snd (snd (RabbitMQClient_sendToQueue b stringify queue message opts (this, s))))) =
        (if \<exists>d. rd (delay m) = Some d \<and> 0 < d
         then Publish ch (template (rd (exchange m)) @ ''-delayed'') (rd (routingKey m)) payload
                ((spread_headers (rd (headers m)))(''x-delay'' \<mapsto> num_hval (rd (delay m))))
         else SendToQueue ch queue payload opts)"
  proof (cases "\<exists>d. rd (delay m) = Some d \<and> 0 < d")
    case True
    then have t: "(\<exists>d. rd (delay (spread_options (defaultOptions queue) opts)) = Some d \<and> 0 < d) = True"
      by (simp add: m_def)
    show ?thesis
      using ch enc
      by (cases "hasOwnProperty (headers opts)")
         (simp_all add: RabbitMQClient_sendToQueue_def try_catch_def seq_def encode_def Let_def
                  invoke_accepted [OF ok] delayed_name_def m_def delay_test t
                  merged_headers_own merged_headers_default)
  next
    case False
    then have f: "(\<exists>d. rd (delay (spread_options (defaultOptions queue) opts)) = Some d \<and> 0 < d) = False"
      by (simp add: m_def)
    show ?thesis
      using ch enc
      by (simp add: RabbitMQClient_sendToQueue_def try_catch_def seq_def encode_def Let_def
                  invoke_accepted [OF ok] m_def delay_test f)
  qed
  show ?thesis
    using keys P S unfolding Let_def m_def by simp
qed

text \<open>
  A run of the amended C4 with the caller option \<open>delay: 500\<close>: both operations publish
  through the default exchange with the caller's delay.
\<close>

theorem options_merged_except_on_direct_send_witness:
  "channel open_client = Some 1 \<and> (\<forall>t c. accepting t c = None) \<and>
   last (trace (snd (snd (RabbitMQClient_publish accepting Inr ''orders'' ''{}''
           (no_options\<lparr>delay := Present (Some 500)\<rparr>) (open_client, open_shared))))) =
     Publish 1 ''Exchange_orders-delayed'' (Some ''orders'') ''{}''
       (Map.empty(''x-delay'' \<mapsto> HNum 500)) \<and>
   last (trace (snd (snd (RabbitMQClient_sendToQueue accepting Inr ''orders'' ''{}''
           (no_options\<lparr>delay := Present (Some 500)\<rparr>) (open_client, open_shared))))) =
     Publish 1 ''Exchange_orders-delayed'' (Some ''orders'') ''{}''
       (Map.empty(''x-delay'' \<mapsto> HNum 500))"
proof -
  have ch: "channel open_client = Some 1" by (simp add: open_client_def)
  have enc: "(Inr ''{}'' :: err + string) = Inr ''{}''" by simp
  have acc: "\<forall>t c. accepting t c = None" by (simp add: accepting_def)
  have m: "spread_options (defaultOptions ''orders'') (no_options\<lparr>delay := Present (Some 500)\<rparr>) =
           (defaultOptions ''orders'')\<lparr>delay := Present (Some 500)\<rparr>"
    by (simp add: spread_options_def no_options_def spread_prop_def defaultOptions_def)
  have d: "rd (delay ((defaultOptions ''orders'')\<lparr>delay := Present (Some 500)\<rparr>)) = Some 500"
    "rd (exchange ((defaultOptions ''orders'')\<lparr>delay := Present (Some 500)\<rparr>)) = Some ''Exchange_orders''"
    "rd (routingKey ((defaultOptions ''orders'')\<lparr>delay := Present (Some 500)\<rparr>)) = Some ''orders''"
    "rd (headers ((defaultOptions ''orders'')\<lparr>delay := Present (Some 500)\<rparr>)) = Some Map.empty"
    by (simp_all add: defaultOptions_def rd_def)
  from options_merged_except_on_direct_send
         [where this = open_client and ch = 1 and stringify = "Inr :: string \<Rightarrow> err + string"
            and message = "''{}''" and payload = "''{}''" and queue = "''orders''"
            and opts = "no_options\<lparr>delay := Present (Some 500)\<rparr>" and b = accepting
            and s = open_shared, OF ch enc acc]
  show ?thesis
    using ch acc
    by (simp add: Let_def spread_options_def spread_prop_def defaultOptions_def no_options_def
                  rd_def hasOwnProperty_def template_def spread_headers_def num_hval_def)
qed

text \<open>
  C4 as stated fails on the direct path of \<open>sendToQueue\<close>: with no caller options the
  transport receives the empty options object, which is not the merge over the defaults.
\<close>

theorem sendToQueue_direct_send_passes_caller_options:
  "last (trace (snd (snd (RabbitMQClient_sendToQueue accepting Inr ''orders'' ''{}'' no_options
           (open_client, open_shared))))) =
     SendToQueue 1 ''orders'' ''{}'' no_options \<and>
   no_options \<noteq> spread_options (defaultOptions ''orders'') no_options"
  by (simp add: RabbitMQClient_sendToQueue_def try_catch_def seq_def encode_def Let_def
                invoke_def accepting_def open_client_def open_shared_def no_options_def
                spread_options_def defaultOptions_def spread_prop_def rd_def)

lemma close_result:
  "RabbitMQClient_close b (this, s) =
     (case channel this of
        None \<Rightarrow>
          (case connection s of
             None \<Rightarrow> (Inr (), (this\<lparr>isConnected := False\<rparr>, s))
           | Some k \<Rightarrow>
               (case b (trace s) (ConnectionClose k) of
                  None \<Rightarrow> (Inr (), (this\<lparr>isConnected := False\<rparr>,
                                    s\<lparr>trace := trace s @ [ConnectionClose k], connection := None\<rparr>))
                | Some e \<Rightarrow> (Inl e, (this, s\<lparr>trace := trace s @ [ConnectionClose k]\<rparr>))))
      | Some ch \<Rightarrow>
          (case b (trace s) (ChannelClose ch) of
             Some e \<Rightarrow> (Inl e, (this, s\<lparr>trace := trace s @ [ChannelClose ch]\<rparr>))
           | None \<Rightarrow>
               (case connection s of
                  None \<Rightarrow> (Inr (), (this\<lparr>channel := None, isConnected := False\<rparr>,
                                    s\<lparr>trace := trace s @ [ChannelClose ch]\<rparr>))
                | Some k \<Rightarrow>
                    (case b (trace s @ [ChannelClose ch]) (ConnectionClose k) of
                       None \<Rightarrow> (Inr (), (this\<lparr>channel := None, isConnected := False\<rparr>,
                                         s\<lparr>trace := trace s @ [ChannelClose ch, ConnectionClose k],
                                           connection := None\<rparr>))
                     | Some e \<Rightarrow> (Inl e, (this\<lparr>channel := None\<rparr>,
                                          s\<lparr>trace := trace s @ [ChannelClose ch, ConnectionClose k]\<rparr>))))))"
  by (simp add: RabbitMQClient_close_def seq_def modify_def invoke_def Let_def
           split: option.splits)

text \<open>
  C9, as amended. \<open>close()\<close> closes the channel before the connection and skips a
  component that is already \<open>null\<close>. After a normal return the channel is \<open>null\<close>, the
  class-level connection is \<open>null\<close> and the connected flag is false; the stored
  connection-lost callback and the URL are left as they were. It returns normally
  when the transport accepts the close calls, and always when both components are
  already \<open>null\<close>.
\<close>

theorem close_clears_channel_connection_and_flag:
  "case RabbitMQClient_close b (this, s) of (r, (this', s')) \<Rightarrow>
     (r = Inr () \<longrightarrow>
        channel this' = None \<and> connection s' = None \<and> \<not> isConnected this' \<and>
        connectionLostCallback this' = connectionLostCallback this \<and>
        url this' = url this \<and>
        trace s' = trace s @ (case channel this of None \<Rightarrow> [] | Some ch \<Rightarrow> [ChannelClose ch])
                           @ (case connection s of None \<Rightarrow> [] | Some k \<Rightarrow> [ConnectionClose k])) \<and>
     ((\<forall>t c. b t c = None) \<longrightarrow> r = Inr ()) \<and>
     (channel this = None \<and> connection s = None \<longrightarrow> r = Inr () \<and> trace s' = trace s)"
proof (cases "channel this")
  case no_channel: None
  show ?thesis
  proof (cases "connection s")
    case None
    with no_channel show ?thesis by (simp add: close_result)
  next
    case (Some k)
    with no_channel show ?thesis
      by (cases "b (trace s) (ConnectionClose k)") (auto simp add: close_result)
  qed
next
  case channel: (Some ch)
  show ?thesis
  proof (cases "b (trace s) (ChannelClose ch)")
    case (Some e)
    with channel show ?thesis by (auto simp add: close_result)
  next
    case closed: None
    show ?thesis
    proof (cases "connection s")
      case None
      with channel closed show ?thesis by (simp add: close_result)
    next
      case (Some k)
      with channel closed show ?thesis
        by (cases "b (trace s @ [ChannelClose ch]) (ConnectionClose k)")
           (auto simp add: close_result)
    qed
  qed
qed

text \<open>
  Runs of the amended C9: closing a connected client, and closing a client that was never
  connected.
\<close>

theorem close_clears_channel_connection_and_flag_witness:
  "(\<forall>t c. accepting t c = None) \<and>
   RabbitMQClient_close accepting (open_client, open_shared) =
     (Inr (), (open_client\<lparr>channel := None, isConnected := False\<rparr>,
               open_shared\<lparr>trace := trace open_shared @ [ChannelClose 1, ConnectionClose 0],
                           connection := None\<rparr>)) \<and>
   fst (RabbitMQClient_close accepting (new_RabbitMQClient ''amqp://localhost'', fresh_shared)) = Inr ()"
  using close_clears_channel_connection_and_flag
          [where b = accepting and this = open_client and s = open_shared]
        close_clears_channel_connection_and_flag
          [where b = accepting and this = "new_RabbitMQClient ''amqp://localhost''"
             and s = fresh_shared]
  by (simp add: close_result accepting_def open_client_def open_shared_def fresh_shared_def
                new_RabbitMQClient_def)

text \<open>
  C9 as stated fails: after \<open>close()\<close> has returned normally on a client set up by
  \<open>RabbitMQConnection.connect\<close>, the connection-lost callback is still stored.
\<close>

theorem close_keeps_connection_lost_callback:
  "fst (RabbitMQClient_close accepting (open_client, open_shared)) = Inr () \<and>
   connectionLostCallback (fst (snd (RabbitMQClient_close accepting (open_client, open_shared)))) =
     Some HandleConnectionLost"
  by (simp add: close_result accepting_def open_client_def open_shared_def)

section \<open>Properties of RabbitMQConnection\<close>

lemma start_each_fold:
  "start_each consume cs v =
     fold (\<lambda>c u. snd (consume c (u\<lparr>consume_calls := consume_calls u @ [c]\<rparr>))) cs v"
proof (induction cs arbitrary: v)
  case Nil
  show ?case by simp
next
  case (Cons c cs)
  have "snd (try_catch (call_consume consume c) (\<lambda>e. return ()) v) =
        snd (consume c (v\<lparr>consume_calls := consume_calls v @ [c]\<rparr>))"
    by (cases "consume c (v\<lparr>consume_calls := consume_calls v @ [c]\<rparr>)")
       (simp add: try_catch_def call_consume_def return_def split: sum.splits)
  then show ?case by (simp add: Cons.IH)
qed

text \<open>
  C8. Whatever the entry point \<open>consume()\<close> of a consumer does, and whether it returns
  or throws, \<open>startConsumers\<close> returns normally, and the state it leaves is the one
  reached by calling \<open>consume()\<close> on every registered consumer exactly once, in
  registration order, each call running in the state left by the call before it: an
  error of one call is dropped, its effects are kept, and the next consumer is called.
  When the entry point leaves the call log alone, the log has grown by exactly the
  registered list.
\<close>

theorem startConsumers_starts_each_once_in_order:
  "fst (RabbitMQConnection_startConsumers consume w) = Inr () \<and>
   snd (RabbitMQConnection_startConsumers consume w) =
     fold (\<lambda>c v. snd (consume c (v\<lparr>consume_calls := consume_calls v @ [c]\<rparr>))) (consumers w) w \<and>
   ((\<forall>c v. consume_calls (snd (consume c v)) = consume_calls v) \<longrightarrow>
      consume_calls (snd (RabbitMQConnection_startConsumers consume w)) =
        consume_calls w @ consumers w)"
proof (intro conjI impI)
  show "fst (RabbitMQConnection_startConsumers consume w) = Inr ()"
    by (simp add: RabbitMQConnection_startConsumers_def)
  show "snd (RabbitMQConnection_startConsumers consume w) =
     fold (\<lambda>c v. snd (consume c (v\<lparr>consume_calls := consume_calls v @ [c]\<rparr>))) (consumers w) w"
    by (simp add: RabbitMQConnection_startConsumers_def start_each_fold)
next
  assume frame: "\<forall>c v. consume_calls (snd (consume c v)) = consume_calls v"
  have each: "consume_calls (start_each consume cs v) = consume_calls v @ cs" for cs v
  proof (induction cs arbitrary: v)
    case Nil
    show ?case by simp
  next
    case (Cons c cs)
    have "consume_calls (start_each consume (c # cs) v) =
          consume_calls (snd (consume c (v\<lparr>consume_calls := consume_calls v @ [c]\<rparr>))) @ cs"
      by (simp only: start_each_fold fold_simps Cons.IH [unfolded start_each_fold])
    also have "\<dots> = consume_calls v @ c # cs"
      using frame by simp
    finally show ?case .
  qed
  show "consume_calls (snd (RabbitMQConnection_startConsumers consume w)) =
        consume_calls w @ consumers w"
    by (simp add: RabbitMQConnection_startConsumers_def each)
qed

lemma Consumer_consume_keeps_log:
  "consume_calls (snd (Consumer_consume b c v)) = consume_calls v"
  by (simp add: Consumer_consume_def on_client_def split: sum.splits prod.splits)

text \<open>
  A run of C8 in which starting the first consumer throws (the transport refuses its
  queue): the second consumer is started all the same, as the calls on the transport
  show, and the first is not started again.
\<close>

theorem startConsumers_starts_each_once_in_order_witness:
  "(\<forall>c v. consume_calls (snd (Consumer_consume refusing_orders c v)) = consume_calls v) \<and>
   fst (Consumer_consume refusing_orders (new_Consumer ''orders'') connected_world) =
     Inl (Error ''ECONNREFUSED'') \<and>
   fst (RabbitMQConnection_startConsumers (Consumer_consume refusing_orders)
          (registerConsumers [new_Consumer ''orders'', new_Consumer ''payments''] connected_world)) = Inr () \<and>
   consume_calls (snd (RabbitMQConnection_startConsumers (Consumer_consume refusing_orders)
          (registerConsumers [new_Consumer ''orders'', new_Consumer ''payments''] connected_world))) =
     [new_Consumer ''orders'', new_Consumer ''payments''] \<and>
   trace (rmq (snd (RabbitMQConnection_startConsumers (Consumer_consume refusing_orders)
          (registerConsumers [new_Consumer ''orders'', new_Consumer ''payments''] connected_world)))) =
     trace open_shared @
       [AssertQueue 1 ''orders'' True, AssertQueue 1 ''payments'' True,
        Consume 1 ''payments'' False]"
proof -
  have frame: "\<forall>c v. consume_calls (snd (Consumer_consume refusing_orders c v)) = consume_calls v"
    by (simp add: Consumer_consume_keeps_log)
  have first: "fst (Consumer_consume refusing_orders (new_Consumer ''orders'') connected_world) =
     Inl (Error ''ECONNREFUSED'')"
    by (simp add: Consumer_consume_def getClient_def connected_world_def on_client_def
                  RabbitMQClient_consume_def open_client_def seq_def invoke_def new_Consumer_def
                  Let_def)
  note run = startConsumers_starts_each_once_in_order
            [of "Consumer_consume refusing_orders"
                "registerConsumers [new_Consumer ''orders'', new_Consumer ''payments''] connected_world"]
  have log: "consume_calls (snd (RabbitMQConnection_startConsumers (Consumer_consume refusing_orders)
          (registerConsumers [new_Consumer ''orders'', new_Consumer ''payments''] connected_world))) =
     [new_Consumer ''orders'', new_Consumer ''payments'']"
    using run frame by (simp add: registerConsumers_def connected_world_def)
  have calls: "trace (rmq (snd (RabbitMQConnection_startConsumers (Consumer_consume refusing_orders)
          (registerConsumers [new_Consumer ''orders'', new_Consumer ''payments''] connected_world)))) =
     trace open_shared @
       [AssertQueue 1 ''orders'' True, AssertQueue 1 ''payments'' True,
        Consume 1 ''payments'' False]"
    by (simp only: run [THEN conjunct2, THEN conjunct1])
       (simp add: registerConsumers_def connected_world_def Consumer_consume_def getClient_def
                  on_client_def RabbitMQClient_consume_def open_client_def open_shared_def
                  seq_def invoke_def new_Consumer_def Let_def)
  show ?thesis
    using frame first run log calls by simp
qed

text \<open>
  C6, as amended. When no connect is in flight and the current client reports a live
  connection and channel, \<open>connect(url)\<close> returns at once and normally; it constructs no
  client, calls neither the transport nor any consumer, and leaves the client reference,
  the consumer list and both busy flags as they were. The stored connection URL is
  overwritten with \<open>url\<close>.
\<close>

theorem connect_when_live_only_stores_url:
  assumes "\<not> isConnecting w"
    and "rabbitMQClient w = Some r"
    and "getConnectionStatus (heap w r)"
  shows "RabbitMQConnection_connect fuel b consume rabbitMQUrl retryOnFail w =
           Some (Inr (), w\<lparr>connectionUrl := rabbitMQUrl\<rparr>)"
  using assms by (simp add: RabbitMQConnection_connect_def Let_def)

text \<open>A run of the amended C6 on a connected process.\<close>

theorem connect_when_live_only_stores_url_witness:
  "\<not> isConnecting connected_world \<and> rabbitMQClient connected_world = Some 0 \<and>
   getConnectionStatus (heap connected_world 0) \<and>
   RabbitMQConnection_connect 0 refusing (Consumer_consume refusing) ''amqp://localhost'' True
       connected_world =
     Some (Inr (), connected_world\<lparr>connectionUrl := ''amqp://localhost''\<rparr>)"
proof -
  have a: "\<not> isConnecting connected_world" by (simp add: connected_world_def)
  have b: "rabbitMQClient connected_world = Some 0" by (simp add: connected_world_def)
  have c: "getConnectionStatus (heap connected_world 0)"
    by (simp add: connected_world_def getConnectionStatus_def open_client_def)
  show ?thesis
    using a b c connect_when_live_only_stores_url [OF a b c] by simp
qed

text \<open>
  C6 as stated fails: on a connected process, \<open>connect\<close> with another URL replaces the
  stored connection URL.
\<close>

theorem connect_when_live_overwrites_url:
  "RabbitMQConnection_isConnected connected_world \<and>
   connectionUrl connected_world = ''amqp://localhost'' \<and>
   map_option (connectionUrl \<circ> snd)
     (RabbitMQConnection_connect 0 accepting (Consumer_consume accepting) ''amqp://elsewhere'' True
        connected_world) = Some ''amqp://elsewhere''"
  by (simp add: RabbitMQConnection_connect_def RabbitMQConnection_isConnected_def Let_def
                connected_world_def getConnectionStatus_def open_client_def)

lemma attempt_fails:
  assumes "fst (RabbitMQClient_connect b (new_RabbitMQClient u, rmq w)) = Inl e"
  shows "\<exists>w'. attempt b u w = (Inl e, w') \<and> isConnecting w' = isConnecting w \<and>
              connectionUrl w' = connectionUrl w \<and> consume_calls w' = consume_calls w \<and>
              consumers w' = consumers w"
proof -
  obtain c' s' where r: "RabbitMQClient_connect b (new_RabbitMQClient u, rmq w) = (Inl e, (c', s'))"
    using assms by (cases "RabbitMQClient_connect b (new_RabbitMQClient u, rmq w)") auto
  show ?thesis
    by (simp add: attempt_def Let_def seq_def on_client_def r)
qed

lemma connect_loop_returns_without_retry:
  "connect_loop (Suc n) b u False w \<noteq> None"
  by (simp add: Let_def split: prod.splits sum.splits)

text \<open>
  C7. When no connect is in flight, no live client exists and the \<open>connect()\<close> of the
  new client fails with an error, \<open>connect(url, false)\<close> returns that same error to the
  caller; afterwards the client reference is \<open>null\<close> and the connecting flag is
  cleared, so that a later \<open>connect(url', false)\<close> does not wait: it makes its own
  attempt and returns. No consumer is started.
\<close>

theorem connect_without_retry_propagates_failure:
  assumes idle: "\<not> isConnecting w"
    and down: "\<not> RabbitMQConnection_isConnected w"
    and fails: "fst (RabbitMQClient_connect b (new_RabbitMQClient rabbitMQUrl, rmq w)) = Inl e"
  shows "\<exists>w'. RabbitMQConnection_connect (Suc fuel) b consume rabbitMQUrl False w = Some (Inl e, w') \<and>
              rabbitMQClient w' = None \<and> \<not> isConnecting w' \<and>
              connectionUrl w' = rabbitMQUrl \<and> consume_calls w' = consume_calls w \<and>
              (\<forall>b' u'. RabbitMQConnection_connect (Suc fuel) b' consume u' False w' \<noteq> None)"
proof -
  define w1 where "w1 = w\<lparr>connectionUrl := rabbitMQUrl, isConnecting := True\<rparr>"
  have "fst (RabbitMQClient_connect b (new_RabbitMQClient rabbitMQUrl, rmq w1)) = Inl e"
    using fails by (simp add: w1_def)
  from attempt_fails [OF this] obtain w' where
    a: "attempt b rabbitMQUrl w1 = (Inl e, w')" and u: "connectionUrl w' = connectionUrl w1"
    and c: "consume_calls w' = consume_calls w1"
    by blast
  define w2 where "w2 = w'\<lparr>rabbitMQClient := None, isConnecting := False\<rparr>"
  have live: "(case rabbitMQClient w of None \<Rightarrow> False
               | Some r \<Rightarrow> getConnectionStatus (heap (w\<lparr>connectionUrl := rabbitMQUrl\<rparr>) r)) = False"
    using down by (simp add: RabbitMQConnection_isConnected_def split: option.splits)
  have result: "RabbitMQConnection_connect (Suc fuel) b consume rabbitMQUrl False w = Some (Inl e, w2)"
    using idle a by (simp add: RabbitMQConnection_connect_def Let_def w1_def w2_def live)
  have "RabbitMQConnection_connect (Suc fuel) b' consume u' False w2 \<noteq> None" for b' u'
    by (simp add: RabbitMQConnection_connect_def Let_def w2_def connect_loop_returns_without_retry
             split: option.splits prod.splits sum.splits)
  with result u c show ?thesis by (simp add: w1_def w2_def)
qed

text \<open>A run of C7 against a transport that refuses the connection.\<close>

theorem connect_without_retry_propagates_failure_witness:
  "\<not> isConnecting fresh_world \<and> \<not> RabbitMQConnection_isConnected fresh_world \<and>
   fst (RabbitMQClient_connect refusing (new_RabbitMQClient ''amqp://localhost'', rmq fresh_world)) =
     Inl (Error ''ECONNREFUSED'') \<and>
   map_option fst (RabbitMQConnection_connect 1 refusing (Consumer_consume refusing)
                     ''amqp://localhost'' False fresh_world) = Some (Inl (Error ''ECONNREFUSED'')) \<and>
   map_option (rabbitMQClient \<circ> snd) (RabbitMQConnection_connect 1 refusing (Consumer_consume refusing)
                     ''amqp://localhost'' False fresh_world) = Some None \<and>
   map_option (isConnecting \<circ> snd) (RabbitMQConnection_connect 1 refusing (Consumer_consume refusing)
                     ''amqp://localhost'' False fresh_world) = Some False"
proof -
  have a: "\<not> isConnecting fresh_world" by (simp add: fresh_world_def)
  have b: "\<not> RabbitMQConnection_isConnected fresh_world"
    by (simp add: fresh_world_def RabbitMQConnection_isConnected_def)
  have c: "fst (RabbitMQClient_connect refusing (new_RabbitMQClient ''amqp://localhost'', rmq fresh_world)) =
     Inl (Error ''ECONNREFUSED'')"
    by (simp add: RabbitMQClient_connect_def seq_def invoke_def refusing_def fresh_world_def
                  fresh_shared_def new_RabbitMQClient_def Let_def)
  from connect_without_retry_propagates_failure [OF a b c, of 0 "Consumer_consume refusing"]
  show ?thesis using a b c by auto
qed

section \<open>Properties of Publisher\<close>

lemma reconnect_after_loss:
  "map_option getClient
     (connection_lost 1 accepting (Consumer_consume accepting) 0 connected_world) = Some (Inr 1)"
  by (simp add: connection_lost_def on_connection_close_def connected_world_def open_client_def
                open_shared_def handleConnectionLost_def RabbitMQConnection_connect_def Let_def
                attempt_def seq_def on_client_def RabbitMQClient_connect_def invoke_def
                accepting_def modify_def onConnectionLost_def new_RabbitMQClient_def
                getClient_def)

text \<open>
  C10. The first access to \<open>rabbitMQClient\<close> of a publisher fetches the current client
  of \<open>RabbitMQConnection\<close> and caches it; every later access returns that same client
  and keeps the cache, whatever the state of \<open>RabbitMQConnection\<close> is by then.
\<close>

theorem publisher_client_fetched_once_then_cached:
  assumes "pub_rabbitMQClient p = None"
    and "rabbitMQClient (w :: 'c world) = Some c"
  shows "Publisher_rabbitMQClient p w = (Inr c, p\<lparr>pub_rabbitMQClient := Some c\<rparr>) \<and>
         (\<forall>w' :: 'c world. Publisher_rabbitMQClient (p\<lparr>pub_rabbitMQClient := Some c\<rparr>) w' =
                  (Inr c, p\<lparr>pub_rabbitMQClient := Some c\<rparr>))"
  using assms by (simp add: Publisher_rabbitMQClient_def getClient_def)

text \<open>
  A run of C10: a publisher caches client 0; the connection is lost and
  \<open>handleConnectionLost\<close> reconnects with the new client 1; the publisher still
  returns client 0.
\<close>

theorem publisher_client_fetched_once_then_cached_witness:
  "pub_rabbitMQClient (new_Publisher ''orders'' no_options) = None \<and>
   rabbitMQClient connected_world = Some 0 \<and>
   Publisher_rabbitMQClient (new_Publisher ''orders'' no_options) connected_world =
     (Inr 0, (new_Publisher ''orders'' no_options)\<lparr>pub_rabbitMQClient := Some 0\<rparr>) \<and>
   map_option getClient
     (connection_lost 1 accepting (Consumer_consume accepting) 0 connected_world) = Some (Inr 1) \<and>
   map_option (fst \<circ> Publisher_rabbitMQClient
                 ((new_Publisher ''orders'' no_options)\<lparr>pub_rabbitMQClient := Some 0\<rparr>))
     (connection_lost 1 accepting (Consumer_consume accepting) 0 connected_world) = Some (Inr 0)"
proof -
  have a: "pub_rabbitMQClient (new_Publisher ''orders'' no_options) = None"
    by (simp add: new_Publisher_def)
  have b: "rabbitMQClient connected_world = Some 0" by (simp add: connected_world_def)
  obtain w' where w': "connection_lost 1 accepting (Consumer_consume accepting) 0 connected_world = Some w'"
    using reconnect_after_loss by (cases "connection_lost 1 accepting (Consumer_consume accepting) 0 connected_world") auto
  from publisher_client_fetched_once_then_cached [OF a b]
  show ?thesis
    using a b reconnect_after_loss w' by simp
qed

section \<open>Properties of the Consumer delivery handler\<close>

text \<open>
  C1. For a delivery whose payload parses, when \<open>execute\<close> fails, retry is enabled and
  the attempt counter of the delivery is less than \<open>retry_count\<close>, the handler publishes
  the payload once, to the same queue, with the counter header set to the old counter
  plus 1, the error description recorded and the configured delay, and acknowledges the
  delivery once; it does nothing else (no reject, no publish to the error queue).
\<close>

theorem retry_republishes_once_and_acks_once:
  assumes "parse (content d) = Inr m"
    and "execute m = Some (Error msg)"
    and "retry this"
    and "attempt_counter ck d < retry_count this"
    and "ck \<noteq> ek"
  shows "\<exists>acts hs.
           on_delivery ck ek parse execute this d = Some acts \<and>
           filter is_publish acts =
             [ClientPublish (queueName this) (content d) hs (Some (retry_delay this))] \<and>
           hs ck = Some (HNum (attempt_counter ck d + 1)) \<and>
           hs ek = Some (HStr msg) \<and>
           filter is_ack acts = [ClientAck d] \<and>
           filter is_nack acts = [] \<and>
           length acts = 2"
  using assms by (simp add: on_delivery_def Let_def)

text \<open>A run of C1 on a first delivery, with the default retry policy.\<close>

theorem retry_republishes_once_and_acks_once_witness:
  "(Inr (content first_delivery) :: err + string) = Inr ''{}'' \<and>
   failing_execute ''{}'' = Some (Error ''boom'') \<and>
   retry (new_Consumer ''orders'') \<and>
   attempt_counter ''x-retry-count'' first_delivery < retry_count (new_Consumer ''orders'') \<and>
   ''x-retry-count'' \<noteq> ''x-last-error'' \<and>
   on_delivery ''x-retry-count'' ''x-last-error'' Inr failing_execute (new_Consumer ''orders'')
       first_delivery =
     Some [ClientPublish ''orders'' ''{}''
             (Map.empty(''x-retry-count'' \<mapsto> HNum 1, ''x-last-error'' \<mapsto> HStr ''boom'')) (Some 0),
           ClientAck first_delivery]"
proof -
  have p: "(Inr (content first_delivery) :: err + string) = Inr ''{}''"
    by (simp add: first_delivery_def)
  have x: "failing_execute ''{}'' = Some (Error ''boom'')" by (simp add: failing_execute_def)
  have r: "retry (new_Consumer ''orders'')" by (simp add: new_Consumer_def)
  have c: "attempt_counter ''x-retry-count'' first_delivery < retry_count (new_Consumer ''orders'')"
    by (simp add: attempt_counter_def first_delivery_def new_Consumer_def)
  have k: "''x-retry-count'' \<noteq> ''x-last-error''" by simp
  from retry_republishes_once_and_acks_once
         [where parse = "Inr :: string \<Rightarrow> err + string" and execute = failing_execute, OF p x r c k]
  show ?thesis
    using p x r c
    by (simp add: on_delivery_def Let_def first_delivery_def failing_execute_def new_Consumer_def
                  attempt_counter_def spread_headers_def)
qed

text \<open>
  C2. For a delivery whose payload parses, when \<open>execute\<close> fails and retry is disabled
  or the attempt counter has reached \<open>retry_count\<close>, the handler publishes the payload,
  unchanged, once to the queue \<open>queueName_error\<close>, which is not the original queue, and
  acknowledges the delivery once; it does nothing else.
\<close>

theorem exhausted_or_disabled_retry_dead_letters_once:
  assumes "parse (content d) = Inr m"
    and "execute m = Some (Error msg)"
    and "\<not> retry this \<or> retry_count this \<le> attempt_counter ck d"
  shows "\<exists>acts.
           on_delivery ck ek parse execute this d = Some acts \<and>
           filter is_publish acts =
             [ClientPublish (queueName this @ ''_error'') (content d)
                (spread_headers (properties_headers d)) None] \<and>
           queueName this @ ''_error'' \<noteq> queueName this \<and>
           filter is_ack acts = [ClientAck d] \<and>
           filter is_nack acts = [] \<and>
           length acts = 2"
  using assms by (auto simp add: on_delivery_def Let_def)

text \<open>A run of C2 on a delivery whose counter has reached the default \<open>retry_count\<close>.\<close>

theorem exhausted_or_disabled_retry_dead_letters_once_witness:
  "(Inr (content exhausted_delivery) :: err + string) = Inr ''{}'' \<and>
   failing_execute ''{}'' = Some (Error ''boom'') \<and>
   retry_count (new_Consumer ''orders'') \<le> attempt_counter ''x-retry-count'' exhausted_delivery \<and>
   on_delivery ''x-retry-count'' ''x-last-error'' Inr failing_execute (new_Consumer ''orders'')
       exhausted_delivery =
     Some [ClientPublish ''orders_error'' ''{}'' (Map.empty(''x-retry-count'' \<mapsto> HNum 3)) None,
           ClientAck exhausted_delivery]"
proof -
  have p: "(Inr (content exhausted_delivery) :: err + string) = Inr ''{}''"
    by (simp add: exhausted_delivery_def)
  have x: "failing_execute ''{}'' = Some (Error ''boom'')" by (simp add: failing_execute_def)
  have c: "\<not> retry (new_Consumer ''orders'') \<or>
    retry_count (new_Consumer ''orders'') \<le> attempt_counter ''x-retry-count'' exhausted_delivery"
    by (simp add: attempt_counter_def exhausted_delivery_def new_Consumer_def)
  from exhausted_or_disabled_retry_dead_letters_once
         [where parse = "Inr :: string \<Rightarrow> err + string" and execute = failing_execute
            and ek = "''x-last-error''", OF p x c]
  show ?thesis
    using p x c
    by (simp add: on_delivery_def Let_def exhausted_delivery_def failing_execute_def
                  new_Consumer_def attempt_counter_def spread_headers_def)
qed

end
